theory Spec2Isabelle
  imports Complex_Main "HOL-Library.Sublist"
begin

section \<open>Python text operations\<close>

text \<open>
  Strings are \<open>char list\<close>. The dashboard's texts are ASCII (labels, severities, addresses,
  numbers), where a character is one byte and \<open>length\<close> is Python's \<open>len\<close>;
  \<open>lower\<close> maps \<open>A..Z\<close> to \<open>a..z\<close> and leaves every other byte alone, which is
  \<open>str.lower\<close> on ASCII text.
\<close>

definition lower_char :: "char \<Rightarrow> char" where
  "lower_char c =
     (case map_of (zip ''ABCDEFGHIJKLMNOPQRSTUVWXYZ'' ''abcdefghijklmnopqrstuvwxyz'') c of
        Some d \<Rightarrow> d
      | None \<Rightarrow> c)"

definition lower :: "string \<Rightarrow> string" where
  "lower s = map lower_char s"

text \<open>\<open>q in s\<close> on Python strings: \<open>q\<close> occurs in \<open>s\<close> as a contiguous run.\<close>

fun startswith :: "string \<Rightarrow> string \<Rightarrow> bool" where
  "startswith s [] = True"
| "startswith [] (q # qs) = False"
| "startswith (c # cs) (q # qs) = (c = q \<and> startswith cs qs)"

fun py_in :: "string \<Rightarrow> string \<Rightarrow> bool" where
  "py_in q [] = (q = [])"
| "py_in q (c # cs) = (startswith (c # cs) q \<or> py_in q cs)"

definition ljust :: "nat \<Rightarrow> string \<Rightarrow> string" where
  "ljust w s = s @ replicate (w - length s) CHR '' ''"

definition rjust :: "nat \<Rightarrow> string \<Rightarrow> string" where
  "rjust w s = replicate (w - length s) CHR '' '' @ s"

text \<open>\<open>str.center\<close>: when the padding is odd, the extra blank goes left exactly when the
  width is odd too.\<close>

definition center :: "nat \<Rightarrow> string \<Rightarrow> string" where
  "center w s =
     (let pad = w - length s;
          left = pad div 2 + (if odd pad \<and> odd w then 1 else 0)
      in replicate left CHR '' '' @ s @ replicate (pad - left) CHR '' '')"

text \<open>\<open>sep.join(xs)\<close>.\<close>

fun join :: "string \<Rightarrow> string list \<Rightarrow> string" where
  "join sep [] = []"
| "join sep [x] = x"
| "join sep (x # y # ys) = x @ sep @ join sep (y # ys)"

text \<open>\<open>s.rstrip("0")\<close>.\<close>

definition rstrip0 :: "string \<Rightarrow> string" where
  "rstrip0 s = rev (dropWhile (\<lambda>c. c = CHR ''0'') (rev s))"

section \<open>Numbers as Python prints them\<close>

definition digit_char :: "nat \<Rightarrow> char" where
  "digit_char d = ''0123456789'' ! d"

text \<open>\<open>str(n)\<close> for \<open>n \<ge> 0\<close>: the decimal digits.\<close>

function str_nat :: "nat \<Rightarrow> string" where
  "str_nat n = (if n < 10 then [digit_char n] else str_nat (n div 10) @ [digit_char (n mod 10)])"
  by pat_completeness auto
termination
  by (relation "measure id") auto

declare str_nat.simps [simp del]

definition str_int :: "int \<Rightarrow> string" where
  "str_int i = (if i < 0 then ''-'' @ str_nat (nat (- i)) else str_nat (nat i))"

text \<open>
  A Python float is modelled by the rational it denotes, and the one value that is not a
  number, \<open>nan\<close>, is kept apart in \<open>pyfloat\<close>. \<open>fmt_fixed n x\<close> is \<open>format(x, ".nf")\<close>:
  the exact value rounded to \<open>n\<close> decimals, ties to even, with the sign of \<open>x\<close> kept
  (\<open>-0.04\<close> prints as \<open>-0.0\<close>).
\<close>

datatype pyfloat = Fin rat | NaN

definition round_half_even :: "rat \<Rightarrow> int" where
  "round_half_even x =
     (let f = \<lfloor>x\<rfloor>; d = x - of_int f
      in if d < 1 / 2 then f else if 1 / 2 < d then f + 1 else if even f then f else f + 1)"

definition fmt_fixed :: "nat \<Rightarrow> rat \<Rightarrow> string" where
  "fmt_fixed n x =
     (let m = nat (round_half_even (\<bar>x\<bar> * 10 ^ n));
          ip = str_nat (m div 10 ^ n);
          fp = str_nat (m mod 10 ^ n)
      in (if x < 0 then ''-'' else [])
         @ ip @ (if n = 0 then [] else ''.'' @ replicate (n - length fp) CHR ''0'' @ fp))"

text \<open>\<open>f"{v:.1f}"\<close> of a float that may be \<open>nan\<close>.\<close>

definition fmt1 :: "pyfloat \<Rightarrow> string" where
  "fmt1 v = (case v of NaN \<Rightarrow> ''nan'' | Fin x \<Rightarrow> fmt_fixed 1 x)"

section \<open>The incident table\<close>

text \<open>
  \<open>load_data\<close> reads the CSV file into a DataFrame. A row of it is an \<open>incident\<close>: the
  columns the dashboard reads, typed as the column contract types them, the row's index
  label \<open>idx\<close> (its position in the file; a filtered frame keeps the labels), and the
  values of any further text columns in \<open>extra\<close>. \<open>timestamp\<close> holds the text of the
  parsed \<open>Timestamp\<close>; the dashboard never computes with it.
\<close>

record incident =
  idx :: nat
  timestamp :: string
  date :: string
  hour :: int
  severity :: string
  affected_system :: string
  threat_type :: string
  confidence_score :: rat
  response_time_minutes :: rat
  is_resolved :: bool
  extra :: "string list"

text \<open>A DataFrame that has its columns: the names of the further columns, and the rows.\<close>

record table =
  extra_columns :: "string list"
  rows :: "incident list"

text \<open>
  Modelled from the spec: the order of the columns. The CSV file is not part of the
  repository; the spec's input format lists the required columns in this order, with any
  further columns behind them.
\<close>

definition required_columns :: "string list" where
  "required_columns =
     [''timestamp'', ''date'', ''hour'', ''severity'', ''affected_system'', ''threat_type'',
      ''confidence_score'', ''response_time_minutes'', ''is_resolved'']"

definition columns :: "table \<Rightarrow> string list" where
  "columns t = required_columns @ extra_columns t"

text \<open>
  \<open>filt_df\<close> is either a table or the frame with no rows and no columns, \<open>Bare\<close>, which
  the search step leaves behind when it runs on a table without rows (see
  \<open>search_filter\<close>). Reading a column of \<open>Bare\<close> raises \<open>KeyError\<close>.
\<close>

datatype frame = Table table | Bare

datatype py_error = KeyError string | ValueError | ZeroDivisionError

definition frame_rows :: "frame \<Rightarrow> incident list" where
  "frame_rows f = (case f of Table t \<Rightarrow> rows t | Bare \<Rightarrow> [])"

definition len :: "frame \<Rightarrow> nat" where
  "len f = length (frame_rows f)"

text \<open>\<open>f[name]\<close> for a column the table has; \<open>field\<close> reads it off a row.\<close>

definition getcol :: "string \<Rightarrow> (incident \<Rightarrow> 'a) \<Rightarrow> frame \<Rightarrow> py_error + 'a list" where
  "getcol name field f =
     (case f of Table t \<Rightarrow> Inr (map field (rows t)) | Bare \<Rightarrow> Inl (KeyError name))"

text \<open>\<open>t[mask]\<close>: the rows where the mask holds, in order, under the same columns.\<close>

definition select :: "(incident \<Rightarrow> bool) \<Rightarrow> table \<Rightarrow> table" where
  "select keep t = t\<lparr>rows := filter keep (rows t)\<rparr>"

section \<open>\<open>str(row)\<close>\<close>

text \<open>
  The search lambda receives each row as a Series of dtype \<open>object\<close>, labelled by the
  column names and named by the row's index label, and takes \<open>str\<close> of it. pandas prints
  such a Series one entry per line: the label, left-justified to the longest label plus
  three blanks, then the value, right-justified to the longest value; below them the
  footer \<open>Name: <label>, dtype: object\<close>. Every value carries a leading blank (a
  negative float its sign instead); a float is printed with six decimals and its trailing
  zeros stripped down to one; tab, carriage return and newline are escaped; a value
  longer than \<open>display.max_colwidth = 50\<close> is cut to 47 characters and \<open>...\<close>. A Series
  of more than \<open>display.max_rows = 60\<close> entries shows the first five and the last five
  around a line of dots, and its footer gains \<open>Length\<close>.
\<close>

datatype cell = S string | T string | I int | F rat | B bool

definition row_cells :: "string list \<Rightarrow> incident \<Rightarrow> (string \<times> cell) list" where
  "row_cells extra_names r =
     [(''timestamp'', T (timestamp r)), (''date'', S (date r)), (''hour'', I (hour r)),
      (''severity'', S (severity r)), (''affected_system'', S (affected_system r)),
      (''threat_type'', S (threat_type r)), (''confidence_score'', F (confidence_score r)),
      (''response_time_minutes'', F (response_time_minutes r)),
      (''is_resolved'', B (is_resolved r))]
     @ zip extra_names (map S (extra r))"

fun escape_char :: "char \<Rightarrow> string" where
  "escape_char c =
     (if c = CHR 0x09 then [CHR 0x5C, CHR ''t'']
      else if c = CHR 0x0A then [CHR 0x5C, CHR ''n'']
      else if c = CHR 0x0D then [CHR 0x5C, CHR ''r'']
      else [c])"

definition pprint_thing :: "string \<Rightarrow> string" where
  "pprint_thing s = concat (map escape_char s)"

text \<open>\<open>_trim_zeros_single_float\<close>.\<close>

definition trim_zeros_single_float :: "string \<Rightarrow> string" where
  "trim_zeros_single_float s =
     (let t = rstrip0 s in if t \<noteq> [] \<and> last t = CHR ''.'' then t @ ''0'' else t)"

text \<open>\<open>f"{x: .6f}"\<close>, trimmed: the blank flag puts a blank where a negative has its sign.\<close>

definition float_format :: "rat \<Rightarrow> string" where
  "float_format x =
     trim_zeros_single_float ((if x < 0 then [] else '' '') @ fmt_fixed 6 x)"

definition py_bool :: "bool \<Rightarrow> string" where
  "py_bool b = (if b then ''True'' else ''False'')"

fun format_cell :: "cell \<Rightarrow> string" where
  "format_cell (S s) = '' '' @ pprint_thing s"
| "format_cell (T s) = '' '' @ s"
| "format_cell (I i) = '' '' @ str_int i"
| "format_cell (F x) = float_format x"
| "format_cell (B b) = '' '' @ py_bool b"

definition max_len :: "string list \<Rightarrow> nat" where
  "max_len xs = foldr max (map length xs) 0"

text \<open>\<open>_make_fixed_width\<close> with \<open>display.max_colwidth = 50\<close>, right-justifying.\<close>

definition make_fixed_width :: "string list \<Rightarrow> string list" where
  "make_fixed_width strings =
     (let w = min (max_len strings) 50;
          just = (\<lambda>x. if w < length x then take (w - 3) x @ ''...'' else x)
      in map (rjust w \<circ> just) strings)"

text \<open>\<open>adjoin(3, labels, values)\<close>: two columns side by side, one line per entry.\<close>

definition adjoin :: "string list \<Rightarrow> string list \<Rightarrow> string" where
  "adjoin labels vals =
     join [CHR 0x0A]
       (map (\<lambda>(l, v). ljust (max_len labels + 3) l @ ljust (max_len vals) v) (zip labels vals))"

definition series_to_string :: "(string \<times> cell) list \<Rightarrow> nat \<Rightarrow> string" where
  "series_to_string cs name =
     (let n = length cs;
          truncated = (60 < n);
          shown = (if truncated then take 5 cs @ drop (n - 5) cs else cs);
          fmt_index = map (pprint_thing \<circ> fst) shown;
          fmt_values = make_fixed_width (map (format_cell \<circ> snd) shown);
          width = length (fmt_values ! 4);
          dot_str = center width (if 3 < width then ''...'' else ''..'');
          fmt_index = (if truncated then take 5 fmt_index @ [[]] @ drop 5 fmt_index
                       else fmt_index);
          fmt_values = (if truncated then take 5 fmt_values @ [dot_str] @ drop 5 fmt_values
                        else fmt_values);
          footer = ''Name: '' @ str_nat name
                   @ (if truncated then '', Length: '' @ str_nat n else [])
                   @ '', dtype: object''
      in adjoin fmt_index fmt_values @ [CHR 0x0A] @ footer)"

definition str_row :: "string list \<Rightarrow> incident \<Rightarrow> string" where
  "str_row extra_names r = series_to_string (row_cells extra_names r) (idx r)"

section \<open>The filter widgets and the filtering logic\<close>

text \<open>What the four widgets return: the selected severities, the selected system or
  \<open>All Systems\<close>, one of \<open>All\<close>, \<open>Resolved\<close>, \<open>Pending\<close>, and the search text.\<close>

record criteria =
  severity_choice :: "string list"
  system_choice :: string
  status_choice :: string
  search_query :: string

text \<open>\<open>Series.unique()\<close>: the distinct values in order of first appearance.\<close>

definition unique :: "'a list \<Rightarrow> 'a list" where
  "unique xs = rev (remdups (rev xs))"

text \<open>The widgets' defaults: every severity of the table, the first entry of the system
  box, the first radio button, an empty text box.\<close>

definition default_criteria :: "table \<Rightarrow> criteria" where
  "default_criteria df =
     \<lparr>severity_choice = unique (map severity (rows df)),
      system_choice = ''All Systems'',
      status_choice = ''All'',
      search_query = []\<rparr>"

text \<open>
  The search step, \<open>filt_df[filt_df.apply(lambda row: ..., axis=1)]\<close>. On a table with
  rows, \<open>apply\<close> returns the Boolean mask of the rows whose text holds the lowered query.
  On a table without rows, \<open>apply\<close> returns an empty Series of dtype \<open>float64\<close>; indexing
  a frame by it is not a Boolean mask but a selection of (no) columns, and the result has
  neither rows nor columns.
\<close>

definition search_filter :: "string \<Rightarrow> table \<Rightarrow> frame" where
  "search_filter q t =
     (if rows t = [] then Bare
      else Table (select (\<lambda>row. py_in (lower q) (lower (str_row (extra_columns t) row))) t))"

definition apply_filters :: "table \<Rightarrow> criteria \<Rightarrow> frame" where
  "apply_filters df c =
     (let filt_df = select (\<lambda>r. severity r \<in> set (severity_choice c)) df;
          filt_df = (if system_choice c \<noteq> ''All Systems''
                     then select (\<lambda>r. affected_system r = system_choice c) filt_df
                     else filt_df);
          filt_df = (if status_choice c = ''Resolved''
                     then select (\<lambda>r. is_resolved r = True) filt_df
                     else if status_choice c = ''Pending''
                     then select (\<lambda>r. is_resolved r = False) filt_df
                     else filt_df)
      in if search_query c \<noteq> [] then search_filter (search_query c) filt_df
         else Table filt_df)"

section \<open>The KPI section\<close>

text \<open>\<open>a / b\<close> on Python integers: a float, or \<open>ZeroDivisionError\<close>.\<close>

definition py_truediv :: "nat \<Rightarrow> nat \<Rightarrow> py_error + rat" where
  "py_truediv a b = (if b = 0 then Inl ZeroDivisionError else Inr (of_nat a / of_nat b))"

text \<open>\<open>int(x)\<close>: the fraction is cut off, towards zero.\<close>

definition py_int :: "rat \<Rightarrow> int" where
  "py_int x = (if 0 \<le> x then \<lfloor>x\<rfloor> else \<lceil>x\<rceil>)"

text \<open>\<open>avg_count = len(df) / len(df['date'].unique()) if len(df['date'].unique()) > 0 else 0\<close>\<close>

definition avg_count :: "table \<Rightarrow> py_error + rat" where
  "avg_count df =
     (if 0 < length (unique (map date (rows df)))
      then py_truediv (length (rows df)) (length (unique (map date (rows df))))
      else Inr 0)"

text \<open>\<open>current_count = len(filt_df)\<close>, and the number in the delta of the first metric,
  \<open>current_count - int(avg_count)\<close>.\<close>

definition current_count :: "frame \<Rightarrow> nat" where
  "current_count filt_df = len filt_df"

definition delta :: "table \<Rightarrow> frame \<Rightarrow> py_error + int" where
  "delta df filt_df =
     (case avg_count df of
        Inl e \<Rightarrow> Inl e
      | Inr a \<Rightarrow> Inr (int (current_count filt_df) - py_int a))"

definition delta_label :: "int \<Rightarrow> string" where
  "delta_label d = str_int d @ '' vs Avg''"

text \<open>\<open>len(filt_df[filt_df['severity'] == 'Critical'])\<close>\<close>

definition critical_points :: "frame \<Rightarrow> py_error + nat" where
  "critical_points filt_df =
     (case getcol ''severity'' severity filt_df of
        Inl e \<Rightarrow> Inl e
      | Inr col \<Rightarrow> Inr (length (filter (\<lambda>s. s = ''Critical'') col)))"

text \<open>\<open>Series.mean()\<close> of a float column: \<open>nan\<close> when the column is empty.\<close>

definition mean :: "rat list \<Rightarrow> pyfloat" where
  "mean xs = (if xs = [] then NaN else Fin (sum_list xs / of_nat (length xs)))"

text \<open>\<open>f"{filt_df['confidence_score'].mean():.1f}%"\<close> and
  \<open>f"{filt_df['response_time_minutes'].mean():.1f}m"\<close>\<close>

definition avg_confidence :: "frame \<Rightarrow> py_error + string" where
  "avg_confidence filt_df =
     (case getcol ''confidence_score'' confidence_score filt_df of
        Inl e \<Rightarrow> Inl e
      | Inr col \<Rightarrow> Inr (fmt1 (mean col) @ ''%''))"

definition avg_mitigation :: "frame \<Rightarrow> py_error + string" where
  "avg_mitigation filt_df =
     (case getcol ''response_time_minutes'' response_time_minutes filt_df of
        Inl e \<Rightarrow> Inl e
      | Inr col \<Rightarrow> Inr (fmt1 (mean col) @ ''m''))"

text \<open>The four metrics in the order the script computes them; the first exception ends
  the section.\<close>

record kpis =
  selected_events :: nat
  selected_delta :: string
  critical :: nat
  confidence :: string
  mitigation :: string

definition kpi_section :: "table \<Rightarrow> frame \<Rightarrow> py_error + kpis" where
  "kpi_section df filt_df =
     (case delta df filt_df of
        Inl e \<Rightarrow> Inl e
      | Inr d \<Rightarrow>
     (case critical_points filt_df of
        Inl e \<Rightarrow> Inl e
      | Inr k2 \<Rightarrow>
     (case avg_confidence filt_df of
        Inl e \<Rightarrow> Inl e
      | Inr k3 \<Rightarrow>
     (case avg_mitigation filt_df of
        Inl e \<Rightarrow> Inl e
      | Inr k4 \<Rightarrow>
          Inr \<lparr>selected_events = current_count filt_df, selected_delta = delta_label d,
               critical = k2, confidence = k3, mitigation = k4\<rparr>))))"

section \<open>The charts\<close>

text \<open>\<open>line_data = filt_df.groupby('hour').size().reset_index(name='Volume')\<close>: one line
  per hour that occurs, ascending, with the number of its rows.\<close>

definition groupby_size :: "int list \<Rightarrow> (int \<times> nat) list" where
  "groupby_size col = map (\<lambda>h. (h, count_list col h)) (sort (remdups col))"

definition line_data :: "frame \<Rightarrow> py_error + (int \<times> nat) list" where
  "line_data filt_df =
     (case getcol ''hour'' hour filt_df of
        Inl e \<Rightarrow> Inl e
      | Inr col \<Rightarrow> Inr (groupby_size col))"

section \<open>The export\<close>

text \<open>
  The canonical text of a value, as the export writes it: a string as it is, an integer
  in decimal, a Boolean as \<open>True\<close> or \<open>False\<close>, a float by its shortest decimal
  expansion with at least one decimal (\<open>repr\<close>; the floats of the table are read from
  decimal text, and exponent notation is left out of the model).
\<close>

definition float_repr :: "rat \<Rightarrow> string" where
  "float_repr x =
     (case find (\<lambda>n. of_int \<lfloor>x * 10 ^ n\<rfloor> = x * 10 ^ n) [1..<17] of
        Some n \<Rightarrow> fmt_fixed n x
      | None \<Rightarrow> fmt_fixed 17 x)"

fun cell_text :: "cell \<Rightarrow> string" where
  "cell_text (S s) = s"
| "cell_text (T s) = s"
| "cell_text (I i) = str_int i"
| "cell_text (F x) = float_repr x"
| "cell_text (B b) = py_bool b"

text \<open>
  \<open>filt_df.to_csv(index=False).encode('utf-8')\<close>. The header and every row go through
  Python's \<open>csv.writer\<close> with its default dialect: fields joined by commas, the line
  ended by a newline, a field quoted when it holds a comma, a quote, a newline or a
  carriage return, a quote inside a quoted field doubled, and a row of one empty field
  written as two quotes. The index is not written. The texts are ASCII, so the encoding
  to bytes changes nothing.
\<close>

definition special :: "char \<Rightarrow> bool" where
  "special c = (c = CHR '','' \<or> c = CHR 0x22 \<or> c = CHR 0x0A \<or> c = CHR 0x0D)"

definition double_quotes :: "string \<Rightarrow> string" where
  "double_quotes s = concat (map (\<lambda>c. if c = CHR 0x22 then [c, c] else [c]) s)"

definition csv_field :: "string \<Rightarrow> string" where
  "csv_field s =
     (if list_ex special s then [CHR 0x22] @ double_quotes s @ [CHR 0x22] else s)"

definition writerow :: "string list \<Rightarrow> string" where
  "writerow texts =
     (if texts = [[]] then [CHR 0x22, CHR 0x22] else join '','' (map csv_field texts))
     @ [CHR 0x0A]"

definition row_texts :: "string list \<Rightarrow> incident \<Rightarrow> string list" where
  "row_texts extra_names r = map (cell_text \<circ> snd) (row_cells extra_names r)"

definition to_csv :: "frame \<Rightarrow> string" where
  "to_csv f =
     (case f of
        Table t \<Rightarrow>
          writerow (columns t) @ concat (map (writerow \<circ> row_texts (extra_columns t)) (rows t))
      | Bare \<Rightarrow> writerow [])"




section \<open>The summary section\<close>

text \<open>
  \<open>filt_df['threat_type'].value_counts().idxmax()\<close>. \<open>value_counts\<close> counts each
  category, the categories in order of first appearance, and then sorts the counts with
  \<open>sort_values(ascending=False)\<close>; \<open>idxmax\<close> returns the first label that has the
  largest count, and raises \<open>ValueError\<close> on an empty Series. \<open>sort_values\<close> sorts with
  its default \<open>kind='quicksort'\<close>, which pandas documents as not stable, so the order it
  gives to equal counts is not fixed by the script: the sort is a parameter of the model.
\<close>

datatype notice = Info string | Warning string

type_synonym sorter = "(string \<times> nat) list \<Rightarrow> (string \<times> nat) list"

definition counts :: "string list \<Rightarrow> (string \<times> nat) list" where
  "counts col = map (\<lambda>k. (k, count_list col k)) (unique col)"

definition value_counts :: "sorter \<Rightarrow> string list \<Rightarrow> (string \<times> nat) list" where
  "value_counts sort_values col = sort_values (counts col)"

definition idxmax :: "(string \<times> nat) list \<Rightarrow> py_error + string" where
  "idxmax vc =
     (case find (\<lambda>kv. snd kv = foldr max (map snd vc) 0) vc of
        None \<Rightarrow> Inl ValueError
      | Some kv \<Rightarrow> Inr (fst kv))"

definition summary_text :: "string \<Rightarrow> string" where
  "summary_text top_threat =
     ''**Automated Summary:** The primary threat vector currently identified is **''
     @ top_threat
     @ ''**. We recommend immediate audit of logs associated with this activity.''"

definition no_match_text :: string where
  "no_match_text = ''No incidents match the selected filters. System appears clear.''"

definition summary :: "sorter \<Rightarrow> frame \<Rightarrow> py_error + notice" where
  "summary sort_values filt_df =
     (if 0 < len filt_df then
        (case getcol ''threat_type'' threat_type filt_df of
           Inl e \<Rightarrow> Inl e
         | Inr col \<Rightarrow>
             (case idxmax (value_counts sort_values col) of
                Inl e \<Rightarrow> Inl e
              | Inr top_threat \<Rightarrow> Inr (Info (summary_text top_threat))))
      else Inr (Warning no_match_text))"

text \<open>
  Two descending sorts. The first keeps equal counts in the order they came in: a stable
  ascending sort of the reversed list, reversed (what \<open>sort_values\<close> does when the sort
  underneath is stable). The second is an ascending sort read backwards, which turns equal
  counts around.
\<close>

definition stable_descending :: sorter where
  "stable_descending kvs = rev (sort_key snd (rev kvs))"

definition reversed_ascending :: sorter where
  "reversed_ascending kvs = rev (sort_key snd kvs)"


section \<open>The script as a whole\<close>

text \<open>
  The DataFrames live in the interpreter's memory, and the script's variables \<open>df\<close> and
  \<open>filt_df\<close> refer to them. \<open>objects\<close> lists the frames created so far, a frame's
  address being its position, and \<open>var_df\<close> and \<open>var_filt_df\<close> hold the addresses the
  two variables refer to; \<open>frame[mask]\<close> creates a new frame and never writes to an
  old one, and an assignment to \<open>filt_df\<close> makes the variable refer to the new frame.
\<close>

record session =
  objects :: "frame list"
  var_df :: nat
  var_filt_df :: "nat option"

definition loaded :: "table \<Rightarrow> session" where
  "loaded t = \<lparr>objects = [Table t], var_df = 0, var_filt_df = None\<rparr>"

definition assign_filt_df :: "frame \<Rightarrow> session \<Rightarrow> session" where
  "assign_filt_df f s = s\<lparr>objects := objects s @ [f], var_filt_df := Some (length (objects s))\<rparr>"

definition the_filt_df :: "session \<Rightarrow> frame" where
  "the_filt_df s = (case var_filt_df s of Some a \<Rightarrow> objects s ! a | None \<Rightarrow> Bare)"

text \<open>A row mask applied to a frame; on \<open>Bare\<close> the mask's column is missing.\<close>

definition getitem_mask :: "string \<Rightarrow> (incident \<Rightarrow> bool) \<Rightarrow> frame \<Rightarrow> py_error + frame" where
  "getitem_mask name keep f =
     (case f of Table t \<Rightarrow> Inr (Table (select keep t)) | Bare \<Rightarrow> Inl (KeyError name))"

definition getitem_search :: "string \<Rightarrow> frame \<Rightarrow> frame" where
  "getitem_search q f = (case f of Table t \<Rightarrow> search_filter q t | Bare \<Rightarrow> Bare)"

text \<open>One filtering statement: evaluate the right-hand side, and on success bind
  \<open>filt_df\<close> to the new frame.\<close>

definition filter_step :: "py_error + frame \<Rightarrow> session \<Rightarrow> py_error + session" where
  "filter_step rhs s = (case rhs of Inl e \<Rightarrow> Inl e | Inr f \<Rightarrow> Inr (assign_filt_df f s))"

text \<open>Lines 66 to 76 of the script, statement by statement.\<close>

definition severity_step :: "criteria \<Rightarrow> session \<Rightarrow> py_error + session" where
  "severity_step c s =
     filter_step
       (getitem_mask ''severity'' (\<lambda>r. severity r \<in> set (severity_choice c))
          (objects s ! var_df s)) s"

definition system_step :: "criteria \<Rightarrow> session \<Rightarrow> py_error + session" where
  "system_step c s =
     (if system_choice c \<noteq> ''All Systems''
      then filter_step
             (getitem_mask ''affected_system'' (\<lambda>r. affected_system r = system_choice c)
                (the_filt_df s)) s
      else Inr s)"

definition status_step :: "criteria \<Rightarrow> session \<Rightarrow> py_error + session" where
  "status_step c s =
     (if status_choice c = ''Resolved''
      then filter_step
             (getitem_mask ''is_resolved'' (\<lambda>r. is_resolved r = True) (the_filt_df s)) s
      else if status_choice c = ''Pending''
      then filter_step
             (getitem_mask ''is_resolved'' (\<lambda>r. is_resolved r = False) (the_filt_df s)) s
      else Inr s)"

definition search_step :: "criteria \<Rightarrow> session \<Rightarrow> session" where
  "search_step c s =
     (if search_query c \<noteq> []
      then assign_filt_df (getitem_search (search_query c) (the_filt_df s)) s
      else s)"

text \<open>The four statements in sequence; an exception ends the run with the session as
  it then is.\<close>

definition filtering_logic :: "criteria \<Rightarrow> session \<Rightarrow> session \<times> py_error option" where
  "filtering_logic c s0 =
     (case severity_step c s0 of
        Inl e \<Rightarrow> (s0, Some e)
      | Inr s1 \<Rightarrow>
     (case system_step c s1 of
        Inl e \<Rightarrow> (s1, Some e)
      | Inr s2 \<Rightarrow>
     (case status_step c s2 of
        Inl e \<Rightarrow> (s2, Some e)
      | Inr s3 \<Rightarrow> (search_step c s3, None))))"

text \<open>What the script shows below the filters: the metrics, the timeline's data, the
  download and the conclusion. None of these statements assigns to a variable that
  holds a frame.\<close>

record report =
  metrics :: kpis
  timeline :: "(int \<times> nat) list"
  download :: string
  conclusion :: notice

definition render :: "sorter \<Rightarrow> frame \<Rightarrow> frame \<Rightarrow> py_error + report" where
  "render sort_values snapshot filt =
     (case snapshot of
        Bare \<Rightarrow> Inl (KeyError ''date'')
      | Table t \<Rightarrow>
     (case kpi_section t filt of
        Inl e \<Rightarrow> Inl e
      | Inr k \<Rightarrow>
     (case line_data filt of
        Inl e \<Rightarrow> Inl e
      | Inr l \<Rightarrow>
     (case summary sort_values filt of
        Inl e \<Rightarrow> Inl e
      | Inr n \<Rightarrow>
          Inr \<lparr>metrics = k, timeline = l, download = to_csv filt, conclusion = n\<rparr>))))"

definition dashboard :: "sorter \<Rightarrow> criteria \<Rightarrow> session \<Rightarrow> session \<times> (py_error + report)" where
  "dashboard sort_values c s0 =
     (case filtering_logic c s0 of
        (s, Some e) \<Rightarrow> (s, Inl e)
      | (s, None) \<Rightarrow> (s, render sort_values (objects s ! var_df s) (the_filt_df s)))"

text \<open>A later session extends an earlier one when \<open>df\<close> still refers to the same
  address and every frame that existed is still there, unchanged, at its address.\<close>

definition extends :: "session \<Rightarrow> session \<Rightarrow> bool" where
  "extends s s' = (var_df s' = var_df s \<and> prefix (objects s) (objects s'))"

section \<open>The search claim, in the spec's words\<close>

text \<open>
  The three structured predicates of the filter, each a no-op at its default, and the
  search predicate of the code: the lowered query occurs in the lowered text of the row.
\<close>

definition passes_other :: "criteria \<Rightarrow> incident \<Rightarrow> bool" where
  "passes_other c r =
     (severity r \<in> set (severity_choice c)
      \<and> (if system_choice c \<noteq> ''All Systems'' then affected_system r = system_choice c
         else True)
      \<and> (if status_choice c = ''Resolved'' then is_resolved r
         else if status_choice c = ''Pending'' then \<not> is_resolved r
         else True))"

definition matches_query :: "string list \<Rightarrow> string \<Rightarrow> incident \<Rightarrow> bool" where
  "matches_query extra_names q r = py_in (lower q) (lower (str_row extra_names r))"


section \<open>A small table\<close>

definition incident_0 :: incident where
  "incident_0 =
     \<lparr>idx = 0, timestamp = ''2024-01-15 10:30:00'', date = ''2024-01-15'', hour = 10,
      severity = ''High'', affected_system = ''web-01'', threat_type = ''Malware'',
      confidence_score = 171 / 2, response_time_minutes = 12, is_resolved = True,
      extra = [''192.168.1.10'']\<rparr>"

definition table_0 :: table where
  "table_0 = \<lparr>extra_columns = [''source_ip''], rows = [incident_0]\<rparr>"


text \<open>Ten incidents on two dates, five a date, three of them critical.\<close>

definition incident_at :: "nat \<Rightarrow> string \<Rightarrow> string \<Rightarrow> string \<Rightarrow> incident" where
  "incident_at i d sev threat = incident_0\<lparr>idx := i, date := d, severity := sev, threat_type := threat\<rparr>"

definition table_10 :: table where
  "table_10 =
     \<lparr>extra_columns = [''source_ip''],
      rows =
        [incident_at 0 ''2024-01-15'' ''High'' ''Malware'',
         incident_at 1 ''2024-01-15'' ''Critical'' ''Phishing'',
         incident_at 2 ''2024-01-15'' ''Low'' ''Malware'',
         incident_at 3 ''2024-01-15'' ''Critical'' ''DDoS'',
         incident_at 4 ''2024-01-15'' ''Medium'' ''Phishing'',
         incident_at 5 ''2024-01-16'' ''High'' ''DDoS'',
         incident_at 6 ''2024-01-16'' ''Low'' ''Malware'',
         incident_at 7 ''2024-01-16'' ''Critical'' ''Phishing'',
         incident_at 8 ''2024-01-16'' ''Medium'' ''DDoS'',
         incident_at 9 ''2024-01-16'' ''High'' ''Malware'']\<rparr>"

definition criteria_critical :: criteria where
  "criteria_critical =
     \<lparr>severity_choice = [''Critical''], system_choice = ''All Systems'', status_choice = ''All'',
      search_query = []\<rparr>"


text \<open>No severity selected, without and with a search text.\<close>

definition criteria_none :: criteria where
  "criteria_none =
     \<lparr>severity_choice = [], system_choice = ''All Systems'', status_choice = ''All'',
      search_query = []\<rparr>"

definition criteria_none_searching :: criteria where
  "criteria_none_searching = criteria_none\<lparr>search_query := ''192.168''\<rparr>"

section \<open>Properties of the filter\<close>

lemma rows_select: "rows (select keep t) = filter keep (rows t)"
  by (simp add: select_def)

lemma extra_columns_select: "extra_columns (select keep t) = extra_columns t"
  by (simp add: select_def)

lemma select_all: "(\<And>r. r \<in> set (rows t) \<Longrightarrow> keep r) \<Longrightarrow> select keep t = t"
  by (simp add: select_def)

lemma frame_rows_Table: "frame_rows (Table t) = rows t"
  by (simp add: frame_rows_def)

lemma frame_rows_search_filter:
  "frame_rows (search_filter q t) = filter (matches_query (extra_columns t) q) (rows t)"
  by (simp add: search_filter_def frame_rows_def rows_select matches_query_def[abs_def])

lemma set_unique: "set (unique xs) = set xs"
  by (simp add: unique_def)

lemma length_unique: "length (unique xs) = card (set xs)"
  by (simp add: unique_def length_remdups_card_conv)

lemma frame_rows_apply_filters:
  "frame_rows (apply_filters df c) =
     filter (\<lambda>r. passes_other c r
                \<and> (search_query c = [] \<or> matches_query (extra_columns df) (search_query c) r))
       (rows df)"
  by (auto simp add: apply_filters_def Let_def frame_rows_search_filter frame_rows_Table
      rows_select extra_columns_select passes_other_def intro!: filter_cong)





text \<open>The text of the row of \<open>table_0\<close>, line by line as pandas prints it.\<close>

lemma replicate_numeral: "replicate (numeral k) x = x # replicate (pred_numeral k) x"
  by (simp add: numeral_eq_Suc)

lemma fmt_fixed_rounded:
  "round_half_even (\<bar>x\<bar> * 10 ^ n) = int m \<Longrightarrow>
     fmt_fixed n x =
       (if x < 0 then ''-'' else [])
       @ str_nat (m div 10 ^ n)
       @ (if n = 0 then []
          else ''.'' @ replicate (n - length (str_nat (m mod 10 ^ n))) CHR ''0''
               @ str_nat (m mod 10 ^ n))"
  by (simp add: fmt_fixed_def Let_def)

lemma fmt_855: "float_format (171 / 2) = '' 85.5''"
proof -
  have "round_half_even (\<bar>171 / 2\<bar> * 10 ^ 6) = int 85500000"
    by (simp add: round_half_even_def Let_def)
  then have "fmt_fixed 6 (171 / 2) = ''85.500000''"
    by (simp add: fmt_fixed_rounded str_nat.simps digit_char_def)
  then show ?thesis
    by (simp add: float_format_def trim_zeros_single_float_def rstrip0_def)
qed

lemma fmt_12: "float_format 12 = '' 12.0''"
proof -
  have "round_half_even (\<bar>12\<bar> * 10 ^ 6) = int 12000000"
    by (simp add: round_half_even_def Let_def)
  then have "fmt_fixed 6 12 = ''12.000000''"
    by (simp add: fmt_fixed_rounded str_nat.simps digit_char_def replicate_numeral)
  then show ?thesis
    by (simp add: float_format_def trim_zeros_single_float_def rstrip0_def)
qed

lemma incident_0_values:
  "map (format_cell \<circ> snd) (row_cells [''source_ip''] incident_0) =
     ['' 2024-01-15 10:30:00'', '' 2024-01-15'', '' 10'', '' High'', '' web-01'', '' Malware'',
      '' 85.5'', '' 12.0'', '' True'', '' 192.168.1.10'']"
  by (simp add: row_cells_def incident_0_def fmt_855 fmt_12 str_int_def str_nat.simps
      digit_char_def py_bool_def pprint_thing_def)

lemma incident_0_labels:
  "map (pprint_thing \<circ> fst) (row_cells [''source_ip''] incident_0) =
     [''timestamp'', ''date'', ''hour'', ''severity'', ''affected_system'', ''threat_type'',
      ''confidence_score'', ''response_time_minutes'', ''is_resolved'', ''source_ip'']"
  by (simp add: row_cells_def incident_0_def pprint_thing_def)

lemma incident_0_fixed_width:
  "make_fixed_width ['' 2024-01-15 10:30:00'', '' 2024-01-15'', '' 10'', '' High'', '' web-01'',
      '' Malware'', '' 85.5'', '' 12.0'', '' True'', '' 192.168.1.10''] =
     ['' 2024-01-15 10:30:00'',
      ''          2024-01-15'',
      ''                  10'',
      ''                High'',
      ''              web-01'',
      ''             Malware'',
      ''                85.5'',
      ''                12.0'',
      ''                True'',
      ''        192.168.1.10'']"
  by (simp add: make_fixed_width_def max_len_def rjust_def Let_def replicate_numeral)

lemma incident_0_adjoin:
  "adjoin
     [''timestamp'', ''date'', ''hour'', ''severity'', ''affected_system'', ''threat_type'',
      ''confidence_score'', ''response_time_minutes'', ''is_resolved'', ''source_ip'']
     ['' 2024-01-15 10:30:00'',
      ''          2024-01-15'',
      ''                  10'',
      ''                High'',
      ''              web-01'',
      ''             Malware'',
      ''                85.5'',
      ''                12.0'',
      ''                True'',
      ''        192.168.1.10''] =
   join [CHR 0x0A]
     [''timestamp                2024-01-15 10:30:00'',
      ''date                              2024-01-15'',
      ''hour                                      10'',
      ''severity                                High'',
      ''affected_system                       web-01'',
      ''threat_type                          Malware'',
      ''confidence_score                        85.5'',
      ''response_time_minutes                   12.0'',
      ''is_resolved                             True'',
      ''source_ip                       192.168.1.10'']"
  by (simp add: adjoin_def max_len_def ljust_def replicate_numeral)

lemma incident_0_text:
  "str_row [''source_ip''] incident_0 =
   join [CHR 0x0A]
     [''timestamp                2024-01-15 10:30:00'',
      ''date                              2024-01-15'',
      ''hour                                      10'',
      ''severity                                High'',
      ''affected_system                       web-01'',
      ''threat_type                          Malware'',
      ''confidence_score                        85.5'',
      ''response_time_minutes                   12.0'',
      ''is_resolved                             True'',
      ''source_ip                       192.168.1.10'',
      ''Name: 0, dtype: object'']"
proof -
  have n: "length (row_cells [''source_ip''] incident_0) = 10"
    by (simp add: row_cells_def incident_0_def)
  have name: "str_nat (idx incident_0) = ''0''"
    by (simp add: incident_0_def str_nat.simps digit_char_def)
  have "str_row [''source_ip''] incident_0 =
          adjoin (map (pprint_thing \<circ> fst) (row_cells [''source_ip''] incident_0))
            (make_fixed_width (map (format_cell \<circ> snd) (row_cells [''source_ip''] incident_0)))
          @ [CHR 0x0A] @ ''Name: 0, dtype: object''"
    by (simp add: str_row_def series_to_string_def Let_def n name)
  then show ?thesis
    by (simp add: incident_0_labels incident_0_values incident_0_fixed_width incident_0_adjoin)
qed





text \<open>
  C3. With no severity selected the filtered frame has no rows, whatever the system, the
  resolution and the search text are.
\<close>

theorem empty_severities_empty_subset:
  "frame_rows (apply_filters df \<lparr>severity_choice = [], system_choice = sys,
      status_choice = st, search_query = q\<rparr>) = []
   \<and> len (apply_filters df \<lparr>severity_choice = [], system_choice = sys,
      status_choice = st, search_query = q\<rparr>) = 0"
  by (simp add: len_def frame_rows_apply_filters passes_other_def)

text \<open>
  C7. With the widgets at their defaults (every severity of the table selected,
  \<open>All Systems\<close>, \<open>All\<close>, no search text) the filtered frame is the whole table.
\<close>

theorem default_criteria_identity:
  "apply_filters df (default_criteria df) = Table df"
  by (simp add: apply_filters_def default_criteria_def Let_def select_all set_unique)

text \<open>
  C8. The rows of the filtered frame are a sub-sequence of the table's rows: filtering
  drops rows and never reorders them.
\<close>

theorem filter_preserves_order:
  "subseq (frame_rows (apply_filters df c)) (rows df)"
  by (simp add: frame_rows_apply_filters)

section \<open>Properties of the KPI section\<close>

lemma avg_count_Inr:
  "avg_count df =
     Inr (if card (date ` set (rows df)) = 0 then 0
          else of_nat (length (rows df)) / of_nat (card (date ` set (rows df))))"
  by (simp add: avg_count_def py_truediv_def length_unique)

text \<open>
  C4. \<open>avg_count\<close> never raises: it is the number of rows divided by the number of
  distinct dates of the whole table, and 0 when there is no date. The number of distinct
  dates is the length of \<open>df['date'].unique()\<close>.
\<close>

theorem avg_count_guarded:
  "avg_count df =
     Inr (if card (date ` set (rows df)) = 0 then 0
          else of_nat (length (rows df)) / of_nat (card (date ` set (rows df))))
   \<and> length (unique (map date (rows df))) = card (date ` set (rows df))"
  by (simp add: avg_count_Inr length_unique)

lemma avg_count_nonneg: "avg_count df = Inr a \<Longrightarrow> 0 \<le> a"
  by (auto simp add: avg_count_Inr split: if_splits)

lemma delta_Inr:
  "avg_count df = Inr a \<Longrightarrow> delta df f = Inr (int (current_count f) - \<lfloor>a\<rfloor>)"
  using avg_count_nonneg[of df a] by (simp add: delta_def py_int_def)

text \<open>
  C5. The delta of the first metric is the number of selected rows minus the floor of
  \<open>avg_count\<close>. In particular, for a table of 10 rows on 2 distinct dates and a
  filtered frame of 3 rows, \<open>avg_count\<close> is 5, the count is 3 and the delta is -2.
\<close>

theorem delta_value:
  "(\<exists>a. avg_count df = Inr a
        \<and> delta df (apply_filters df c) = Inr (int (current_count (apply_filters df c)) - \<lfloor>a\<rfloor>))
   \<and> (length (rows df) = 10 \<and> card (date ` set (rows df)) = 2
        \<and> len (apply_filters df c) = 3
      \<longrightarrow> avg_count df = Inr 5 \<and> current_count (apply_filters df c) = 3
          \<and> delta df (apply_filters df c) = Inr (- 2))"
proof -
  obtain a where a: "avg_count df = Inr a"
    by (simp add: avg_count_Inr)
  have general: "\<exists>a. avg_count df = Inr a
        \<and> delta df (apply_filters df c) = Inr (int (current_count (apply_filters df c)) - \<lfloor>a\<rfloor>)"
    using a delta_Inr by blast
  have scenario: "avg_count df = Inr 5 \<and> current_count (apply_filters df c) = 3
          \<and> delta df (apply_filters df c) = Inr (- 2)"
    if "length (rows df) = 10" "card (date ` set (rows df)) = 2" "len (apply_filters df c) = 3"
  proof -
    have five: "avg_count df = Inr 5"
      using that by (simp add: avg_count_Inr)
    show ?thesis
      using that delta_Inr[OF five, of "apply_filters df c"] five
      by (simp add: current_count_def)
  qed
  show ?thesis
    using general scenario by blast
qed

lemma table_10_filtered:
  "frame_rows (apply_filters table_10 criteria_critical) =
     [incident_at 1 ''2024-01-15'' ''Critical'' ''Phishing'',
      incident_at 3 ''2024-01-15'' ''Critical'' ''DDoS'',
      incident_at 7 ''2024-01-16'' ''Critical'' ''Phishing'']"
  by (simp add: frame_rows_apply_filters table_10_def criteria_critical_def passes_other_def
      incident_at_def)

lemma table_10_dates: "date ` set (rows table_10) = {''2024-01-15'', ''2024-01-16''}"
  by (auto simp add: table_10_def incident_at_def)

text \<open>
  The scenario of C5 on \<open>table_10\<close>, filtered to its three critical incidents.
\<close>

theorem delta_value_witness:
  "length (rows table_10) = 10 \<and> card (date ` set (rows table_10)) = 2
   \<and> len (apply_filters table_10 criteria_critical) = 3
   \<and> avg_count table_10 = Inr 5
   \<and> current_count (apply_filters table_10 criteria_critical) = 3
   \<and> delta table_10 (apply_filters table_10 criteria_critical) = Inr (- 2)
   \<and> delta_label (- 2) = ''-2 vs Avg''"
proof -
  have h1: "length (rows table_10) = 10"
    by (simp add: table_10_def)
  have h2: "card (date ` set (rows table_10)) = 2"
    by (simp add: table_10_dates)
  have h3: "len (apply_filters table_10 criteria_critical) = 3"
    by (simp add: len_def table_10_filtered)
  have "delta_label (- 2) = ''-2 vs Avg''"
    by (simp add: delta_label_def str_int_def str_nat.simps digit_char_def)
  then show ?thesis
    using delta_value[of table_10 criteria_critical] h1 h2 h3 by simp
qed

lemma getcol_Table: "getcol name field (Table t) = Inr (map field (rows t))"
  by (simp add: getcol_def)

text \<open>
  C2 fails on the code. With no severity selected the filtered frame of \<open>table_0\<close> is
  empty, and the two mean metrics show \<open>nan%\<close> and \<open>nanm\<close>: the mean of an empty
  column is \<open>nan\<close>, and the script formats it like any number. With a search text
  added the filtered frame has lost its columns, and the KPI section raises
  \<open>KeyError\<close> before it reaches the means.
\<close>

theorem empty_subset_means_are_nan:
  "apply_filters table_0 criteria_none = Table \<lparr>extra_columns = [''source_ip''], rows = []\<rparr>
   \<and> avg_confidence (apply_filters table_0 criteria_none) = Inr ''nan%''
   \<and> avg_mitigation (apply_filters table_0 criteria_none) = Inr ''nanm''
   \<and> apply_filters table_0 criteria_none_searching = Bare
   \<and> kpi_section table_0 (apply_filters table_0 criteria_none_searching)
       = Inl (KeyError ''severity'')"
proof -
  have a: "apply_filters table_0 criteria_none = Table \<lparr>extra_columns = [''source_ip''], rows = []\<rparr>"
    by (simp add: apply_filters_def criteria_none_def table_0_def Let_def select_def)
  have b: "apply_filters table_0 criteria_none_searching = Bare"
    by (simp add: apply_filters_def criteria_none_searching_def criteria_none_def table_0_def
        Let_def select_def search_filter_def)
  have c: "kpi_section table_0 Bare = Inl (KeyError ''severity'')"
    by (simp add: kpi_section_def delta_Inr[OF avg_count_Inr] critical_points_def getcol_def)
  show ?thesis
    by (simp add: a b c avg_confidence_def avg_mitigation_def getcol_Table mean_def fmt1_def)
qed


section \<open>Properties of the summary\<close>










lemma set_reversed_ascending: "set (reversed_ascending kvs) = set kvs"
  by (simp add: reversed_ascending_def)

lemma descending_stable:
  "sorted (rev (map snd (stable_descending kvs)))"
  by (simp add: stable_descending_def rev_map[symmetric])

lemma descending_reversed:
  "sorted (rev (map snd (reversed_ascending kvs)))"
  by (simp add: reversed_ascending_def rev_map[symmetric])
















section \<open>Properties of the export\<close>












section \<open>Properties of the script as a whole\<close>

lemma extends_refl: "extends s s"
  by (simp add: extends_def)

lemma extends_trans: "extends a b \<Longrightarrow> extends b d \<Longrightarrow> extends a d"
  by (auto simp add: extends_def)

lemma extends_assign: "extends s (assign_filt_df f s)"
  by (simp add: extends_def assign_filt_df_def)

lemma the_filt_df_assign: "the_filt_df (assign_filt_df f s) = f"
  by (simp add: assign_filt_df_def the_filt_df_def)

lemma filter_step_extends: "filter_step rhs s = Inr s' \<Longrightarrow> extends s s'"
  by (auto simp add: filter_step_def extends_assign split: sum.splits)

lemma severity_step_extends: "severity_step c s = Inr s' \<Longrightarrow> extends s s'"
  unfolding severity_step_def by (rule filter_step_extends)

lemma system_step_extends: "system_step c s = Inr s' \<Longrightarrow> extends s s'"
  unfolding system_step_def by (auto split: if_splits intro: filter_step_extends extends_refl)

lemma status_step_extends: "status_step c s = Inr s' \<Longrightarrow> extends s s'"
  unfolding status_step_def by (auto split: if_splits intro: filter_step_extends extends_refl)

lemma search_step_extends: "extends s (search_step c s)"
  by (simp add: search_step_def extends_assign extends_refl)

lemma filtering_logic_extends:
  assumes "filtering_logic c s0 = (s, e)"
  shows "extends s0 s"
proof (cases "severity_step c s0")
  case (Inl e1)
  then show ?thesis
    using assms by (simp add: filtering_logic_def extends_refl)
next
  case s1: (Inr s1)
  have e1: "extends s0 s1"
    using s1 by (rule severity_step_extends)
  show ?thesis
  proof (cases "system_step c s1")
    case (Inl e2)
    then show ?thesis
      using assms s1 e1 by (simp add: filtering_logic_def)
  next
    case s2: (Inr s2)
    have e2: "extends s0 s2"
      using e1 system_step_extends[OF s2] by (rule extends_trans)
    show ?thesis
    proof (cases "status_step c s2")
      case (Inl e3)
      then show ?thesis
        using assms s1 s2 e2 by (simp add: filtering_logic_def)
    next
      case s3: (Inr s3)
      have "extends s0 s3"
        using e2 status_step_extends[OF s3] by (rule extends_trans)
      then have "extends s0 (search_step c s3)"
        using search_step_extends by (rule extends_trans)
      then show ?thesis
        using assms s1 s2 s3 by (simp add: filtering_logic_def)
    qed
  qed
qed

lemma dashboard_extends: "extends s0 (fst (dashboard sort_values c s0))"
proof -
  obtain s e where f: "filtering_logic c s0 = (s, e)"
    by (cases "filtering_logic c s0")
  then have "fst (dashboard sort_values c s0) = s"
    by (cases e) (simp_all add: dashboard_def)
  then show ?thesis
    using filtering_logic_extends[OF f] by simp
qed

lemma extends_nth:
  "extends s s' \<Longrightarrow> var_df s < length (objects s) \<Longrightarrow> objects s' ! var_df s' = objects s ! var_df s"
  by (auto simp add: extends_def prefix_def nth_append)

text \<open>
  C10. A run of the script (the filtering statements, then the KPIs, the charts' data,
  the export and the summary) only adds frames to the session: \<open>df\<close> refers to the same
  address afterwards, every frame that existed is unchanged, and so the frame \<open>df\<close>
  refers to is the loaded table as it was at load time, also when the run ends in an
  exception.
\<close>

theorem snapshot_unchanged:
  "extends s0 (fst (dashboard sort_values c s0))
   \<and> (var_df s0 < length (objects s0) \<longrightarrow>
        objects (fst (dashboard sort_values c s0)) ! var_df (fst (dashboard sort_values c s0))
          = objects s0 ! var_df s0)
   \<and> objects (fst (dashboard sort_values c (loaded t)))
        ! var_df (fst (dashboard sort_values c (loaded t))) = Table t"
proof -
  have "objects (fst (dashboard sort_values c (loaded t)))
          ! var_df (fst (dashboard sort_values c (loaded t)))
        = objects (loaded t) ! var_df (loaded t)"
    by (rule extends_nth[OF dashboard_extends]) (simp add: loaded_def)
  then show ?thesis
    using dashboard_extends[of s0 sort_values c] extends_nth[OF dashboard_extends, of s0]
    by (simp add: loaded_def)
qed

text \<open>
  C10 on \<open>table_10\<close>, filtered to its critical incidents.
\<close>

theorem snapshot_unchanged_witness:
  "var_df (loaded table_10) < length (objects (loaded table_10))
   \<and> objects (loaded table_10) ! var_df (loaded table_10) = Table table_10
   \<and> objects (fst (dashboard stable_descending criteria_critical (loaded table_10)))
        ! var_df (fst (dashboard stable_descending criteria_critical (loaded table_10)))
      = Table table_10"
proof -
  have h: "var_df (loaded table_10) < length (objects (loaded table_10))"
    by (simp add: loaded_def)
  have "objects (fst (dashboard stable_descending criteria_critical (loaded table_10)))
        ! var_df (fst (dashboard stable_descending criteria_critical (loaded table_10)))
      = objects (loaded table_10) ! var_df (loaded table_10)"
    using snapshot_unchanged[of "loaded table_10" stable_descending criteria_critical table_10] h
    by blast
  then show ?thesis
    using h by (simp add: loaded_def)
qed


text \<open>The script's filtering statements compute \<open>apply_filters\<close>, and what the script
  offers for download is the export of a frame that has the table's columns.\<close>

lemma severity_step_loaded:
  "severity_step c (loaded t) =
     Inr (assign_filt_df (Table (select (\<lambda>r. severity r \<in> set (severity_choice c)) t)) (loaded t))"
  by (simp add: severity_step_def filter_step_def getitem_mask_def loaded_def)

lemma system_step_Table:
  assumes "the_filt_df s = Table u"
  shows "\<exists>s'. system_step c s = Inr s'
            \<and> the_filt_df s' =
                Table (if system_choice c \<noteq> ''All Systems''
                       then select (\<lambda>r. affected_system r = system_choice c) u else u)"
  using assms by (simp add: system_step_def filter_step_def getitem_mask_def the_filt_df_assign)

lemma status_step_Table:
  assumes "the_filt_df s = Table u"
  shows "\<exists>s'. status_step c s = Inr s'
            \<and> the_filt_df s' =
                Table (if status_choice c = ''Resolved''
                       then select (\<lambda>r. is_resolved r = True) u
                       else if status_choice c = ''Pending''
                       then select (\<lambda>r. is_resolved r = False) u
                       else u)"
  using assms by (simp add: status_step_def filter_step_def getitem_mask_def the_filt_df_assign)

lemma search_step_Table:
  assumes "the_filt_df s = Table u"
  shows "the_filt_df (search_step c s) =
           (if search_query c \<noteq> [] then search_filter (search_query c) u else Table u)"
  using assms by (simp add: search_step_def getitem_search_def the_filt_df_assign)

lemma filtering_logic_loaded:
  "\<exists>s. filtering_logic c (loaded t) = (s, None) \<and> the_filt_df s = apply_filters t c"
proof -
  let ?u1 = "select (\<lambda>r. severity r \<in> set (severity_choice c)) t"
  let ?u2 = "if system_choice c \<noteq> ''All Systems''
             then select (\<lambda>r. affected_system r = system_choice c) ?u1 else ?u1"
  let ?u3 = "if status_choice c = ''Resolved''
             then select (\<lambda>r. is_resolved r = True) ?u2
             else if status_choice c = ''Pending''
             then select (\<lambda>r. is_resolved r = False) ?u2
             else ?u2"
  let ?s1 = "assign_filt_df (Table ?u1) (loaded t)"
  have s1: "severity_step c (loaded t) = Inr ?s1"
    by (rule severity_step_loaded)
  have "the_filt_df ?s1 = Table ?u1"
    by (rule the_filt_df_assign)
  then obtain s2 where s2: "system_step c ?s1 = Inr s2" "the_filt_df s2 = Table ?u2"
    using system_step_Table[of ?s1 ?u1 c] by blast
  obtain s3 where s3: "status_step c s2 = Inr s3" "the_filt_df s3 = Table ?u3"
    using status_step_Table[OF s2(2), of c] by blast
  have "the_filt_df (search_step c s3) =
          (if search_query c \<noteq> [] then search_filter (search_query c) ?u3 else Table ?u3)"
    by (rule search_step_Table[OF s3(2)])
  also have "\<dots> = apply_filters t c"
    by (simp add: apply_filters_def Let_def)
  finally have "the_filt_df (search_step c s3) = apply_filters t c" .
  moreover have "filtering_logic c (loaded t) = (search_step c s3, None)"
    by (simp add: filtering_logic_def s1 s2(1) s3(1))
  ultimately show ?thesis
    by blast
qed

lemma dashboard_loaded:
  "snd (dashboard sort_values c (loaded t)) = render sort_values (Table t) (apply_filters t c)"
proof -
  obtain s where f: "filtering_logic c (loaded t) = (s, None)"
    and filt: "the_filt_df s = apply_filters t c"
    using filtering_logic_loaded by blast
  have "objects s ! var_df s = objects (loaded t) ! var_df (loaded t)"
    by (rule extends_nth[OF filtering_logic_extends[OF f]]) (simp add: loaded_def)
  then have "objects s ! var_df s = Table t"
    by (simp add: loaded_def)
  then show ?thesis
    using f filt by (simp add: dashboard_def)
qed

lemma apply_filters_columns:
  "apply_filters df c = Table t \<Longrightarrow> extra_columns t = extra_columns df"
  by (auto simp add: apply_filters_def Let_def search_filter_def select_def
      split: if_splits)

lemma kpi_section_Bare: "kpi_section df Bare = Inl (KeyError ''severity'')"
  by (simp add: kpi_section_def delta_Inr[OF avg_count_Inr] critical_points_def getcol_def)

lemma download_is_table_export:
  assumes "snd (dashboard sort_values c (loaded df)) = Inr rep"
  shows "\<exists>t. apply_filters df c = Table t \<and> columns t = columns df
            \<and> download rep = to_csv (Table t)"
proof (cases "apply_filters df c")
  case (Table t)
  then have "download rep = to_csv (Table t)"
    using assms by (auto simp add: dashboard_loaded render_def split: sum.splits)
  then show ?thesis
    using Table apply_filters_columns[OF Table] by (simp add: columns_def)
next
  case Bare
  then show ?thesis
    using assms by (simp add: dashboard_loaded render_def kpi_section_Bare)
qed


end
